theory Spec2Isabelle
  imports Complex_Main "HOL-Library.Word"
begin

unbundle bit_operations_syntax

section \<open>Machine types\<close>

text \<open>
  The firmware (\<^verbatim>\<open>Distanse Sensor/src/main.cpp\<close>) runs on an ESP8266: \<^verbatim>\<open>uint8_t\<close> and
  \<^verbatim>\<open>uint32_t\<close> are 8- and 32-bit words whose arithmetic wraps, \<^verbatim>\<open>millis()\<close> returns a
  \<^verbatim>\<open>uint32_t\<close>.
\<close>

type_synonym uint8_t = "8 word"
type_synonym uint32_t = "32 word"

section \<open>Floating point\<close>

text \<open>
  A \<^verbatim>\<open>float\<close> is IEEE-754 binary32 and a \<^verbatim>\<open>double\<close> binary64; the ESP8266 has no floating-point
  unit and the compiler's library computes every operation rounded to nearest, ties to even,
  in the type of the operation (no excess precision). A floating-point value is \<open>FNaN\<close>, an
  infinity \<open>FInf s\<close>, or a number \<open>FNum s m e\<close> that stands for \<open>m * 2 ^ e\<close>, negated when the
  sign \<open>s\<close> is set; zero keeps its sign. \<open>valof\<close> is the real number of an \<open>FNum\<close>. The payload
  of a NaN is not represented.
\<close>

datatype fp = FNaN | FInf bool | FNum bool nat int

definition pow2 :: "int \<Rightarrow> real" where
  "pow2 e = (if 0 \<le> e then 2 ^ nat e else 1 / 2 ^ nat (- e))"

fun valof :: "fp \<Rightarrow> real" where
  "valof (FNum s m e) = (if s then - (real m * pow2 e) else real m * pow2 e)"
| "valof (FInf s) = 0"
| "valof FNaN = 0"

fun is_finite :: "fp \<Rightarrow> bool" where
  "is_finite (FNum s m e) = True"
| "is_finite (FInf s) = False"
| "is_finite FNaN = False"

text \<open>\<open>ilog2 n\<close> is the position of the highest set bit of \<open>n\<close>.\<close>

fun ilog2 :: "nat \<Rightarrow> nat" where
  "ilog2 n = (if n < 2 then 0 else Suc (ilog2 (n div 2)))"

declare ilog2.simps [simp del]

text \<open>
  A format is its precision in bits and the exponents of its smallest and largest normal
  binade. \<open>round_to\<close> rounds the number \<open>m * 2 ^ e\<close> to the format: to nearest, ties to even,
  to a subnormal or to zero below the smallest normal number, and to infinity from half a unit
  in the last place above the largest number on.
\<close>

type_synonym fmt = "nat \<times> int \<times> int"

definition binary32 :: fmt where
  "binary32 = (24, - 126, 127)"

definition binary64 :: fmt where
  "binary64 = (53, - 1022, 1023)"

fun round_to :: "fmt \<Rightarrow> bool \<Rightarrow> nat \<Rightarrow> int \<Rightarrow> fp" where
  "round_to (p, emin, emax) s m e =
     (if m = 0 then FNum s 0 0
      else
        let q = max (e + int (ilog2 m) + 1 - int p) (emin - int p + 1)
        in if q \<le> e then (if e + int (ilog2 m) > emax then FInf s else FNum s m e)
           else
             let k = nat (q - e);
                 m' = m div 2 ^ k;
                 r = m mod 2 ^ k;
                 half = 2 ^ (k - 1);
                 m'' = (if r > half \<or> (r = half \<and> odd m') then m' + 1 else m')
             in if m'' = 0 then FNum s 0 0
                else if q + int (ilog2 m'') > emax then FInf s
                else FNum s m'' q)"

text \<open>
  Subtraction, multiplication and division of IEEE-754, each with its special cases and then
  the exact result rounded to the format. The division computes the quotient with three
  bits more than the precision and a sticky bit for the remainder, which rounds as the exact
  quotient does. \<open>fp_lt\<close> is the comparison \<^verbatim>\<open><\<close>: false when an operand is NaN.
\<close>

fun fp_sub :: "fmt \<Rightarrow> fp \<Rightarrow> fp \<Rightarrow> fp" where
  "fp_sub f FNaN b = FNaN"
| "fp_sub f a FNaN = FNaN"
| "fp_sub f (FInf sa) (FInf sb) = (if sa = sb then FNaN else FInf sa)"
| "fp_sub f (FInf sa) (FNum sb mb eb) = FInf sa"
| "fp_sub f (FNum sa ma ea) (FInf sb) = FInf (\<not> sb)"
| "fp_sub f (FNum sa ma ea) (FNum sb mb eb) =
     (let e = min ea eb;
          x = (if sa then - 1 else 1) * int ma * 2 ^ nat (ea - e);
          y = (if sb then - 1 else 1) * int mb * 2 ^ nat (eb - e);
          d = x - y
      in if d = 0 then FNum (sa \<and> \<not> sb) 0 0
         else round_to f (d < 0) (nat \<bar>d\<bar>) e)"

fun fp_mul :: "fmt \<Rightarrow> fp \<Rightarrow> fp \<Rightarrow> fp" where
  "fp_mul f FNaN b = FNaN"
| "fp_mul f a FNaN = FNaN"
| "fp_mul f (FInf sa) (FInf sb) = FInf (sa \<noteq> sb)"
| "fp_mul f (FInf sa) (FNum sb mb eb) = (if mb = 0 then FNaN else FInf (sa \<noteq> sb))"
| "fp_mul f (FNum sa ma ea) (FInf sb) = (if ma = 0 then FNaN else FInf (sa \<noteq> sb))"
| "fp_mul f (FNum sa ma ea) (FNum sb mb eb) = round_to f (sa \<noteq> sb) (ma * mb) (ea + eb)"

fun fp_div :: "fmt \<Rightarrow> fp \<Rightarrow> fp \<Rightarrow> fp" where
  "fp_div f FNaN b = FNaN"
| "fp_div f a FNaN = FNaN"
| "fp_div f (FInf sa) (FInf sb) = FNaN"
| "fp_div f (FInf sa) (FNum sb mb eb) = FInf (sa \<noteq> sb)"
| "fp_div f (FNum sa ma ea) (FInf sb) = FNum (sa \<noteq> sb) 0 0"
| "fp_div f (FNum sa ma ea) (FNum sb mb eb) =
     (if mb = 0 then (if ma = 0 then FNaN else FInf (sa \<noteq> sb))
      else if ma = 0 then FNum (sa \<noteq> sb) 0 0
      else
        let k = ilog2 mb + fst f + 3;
            q = (ma * 2 ^ k) div mb;
            sticky = (if (ma * 2 ^ k) mod mb = 0 then 0 else 1)
        in round_to f (sa \<noteq> sb) (2 * q + sticky) (ea - eb - int k - 1))"

fun fp_lt :: "fp \<Rightarrow> fp \<Rightarrow> bool" where
  "fp_lt FNaN b = False"
| "fp_lt a FNaN = False"
| "fp_lt (FInf sa) (FInf sb) = (sa \<and> \<not> sb)"
| "fp_lt (FInf sa) (FNum sb mb eb) = sa"
| "fp_lt (FNum sa ma ea) (FInf sb) = (\<not> sb)"
| "fp_lt (FNum sa ma ea) (FNum sb mb eb) = (valof (FNum sa ma ea) < valof (FNum sb mb eb))"

text \<open>
  The conversions of the program: a \<^verbatim>\<open>double\<close> assigned to a \<^verbatim>\<open>float\<close> is rounded, a \<^verbatim>\<open>long\<close>
  becomes a \<^verbatim>\<open>double\<close>; a \<^verbatim>\<open>float\<close> becomes a \<^verbatim>\<open>double\<close> unchanged. \<open>fp_int\<close> is an integer
  constant or literal with an integral value (\<^verbatim>\<open>-1\<close>, \<^verbatim>\<open>2\<close>, \<^verbatim>\<open>0.0\<close>, \<^verbatim>\<open>20.0\<close>, \<^verbatim>\<open>100.0\<close>), all exact in
  both formats. \<open>lit_0_034\<close> is the \<^verbatim>\<open>double\<close> literal \<^verbatim>\<open>0.034\<close>, the binary64 number nearest to
  34/1000.
\<close>

definition double_to_float :: "fp \<Rightarrow> fp" where
  "double_to_float a = (case a of FNum s m e \<Rightarrow> round_to binary32 s m e | _ \<Rightarrow> a)"

definition long_to_double :: "int \<Rightarrow> fp" where
  "long_to_double k = round_to binary64 (k < 0) (nat \<bar>k\<bar>) 0"

definition fp_int :: "int \<Rightarrow> fp" where
  "fp_int k = FNum (k < 0) (nat \<bar>k\<bar>) 0"

definition lit_0_034 :: fp where
  "lit_0_034 = fp_div binary64 (FNum False 34 0) (FNum False 1000 0)"

text \<open>
  A \<^verbatim>\<open>float\<close> that the program only stores and copies (\<^verbatim>\<open>Config::barrelHeightCm\<close>, which
  \<^verbatim>\<open>saveConfig\<close> and \<^verbatim>\<open>loadConfig\<close> read and write through a \<^verbatim>\<open>union { float f; uint32_t i; }\<close>)
  is kept as its binary32 bit pattern, so that the union is the identity. \<open>decode32\<close> is the
  value of a pattern, read where the program computes with the field. \<open>float_of_int\<close> is the
  pattern of the conversion \<^verbatim>\<open>(float)barrel\<close> of a 32-bit \<^verbatim>\<open>int\<close>.
\<close>

type_synonym float32 = "32 word"

definition decode32 :: "float32 \<Rightarrow> fp" where
  "decode32 w =
     (let s = bit w 31;
          e = unat (drop_bit 23 w AND 0xFF);
          m = unat (w AND 0x7FFFFF)
      in if e = 255 then (if m = 0 then FInf s else FNaN)
         else if e = 0 then FNum s m (- 149)
         else FNum s (2 ^ 23 + m) (int e - 150))"

definition float_of_nat :: "nat \<Rightarrow> float32" where
  "float_of_nat n =
     (if n = 0 then 0
      else
        let e = ilog2 n;
            m = (if e \<le> 23 then n * 2 ^ (23 - e)
                 else
                   let q = n div 2 ^ (e - 23);
                       r = n mod 2 ^ (e - 23);
                       half = 2 ^ (e - 24)
                   in if r > half \<or> (r = half \<and> odd q) then q + 1 else q)
        in word_of_int (int ((e + 127) * 2 ^ 23 + (m - 2 ^ 23))))"

definition float_of_int :: "int \<Rightarrow> float32" where
  "float_of_int k =
     (if k < 0 then float_of_nat (nat (- k)) OR 0x80000000 else float_of_nat (nat k))"

text \<open>A C \<^verbatim>\<open>char\<close> is an Isabelle \<open>char\<close>; these are the conversions to and from \<^verbatim>\<open>uint8_t\<close>.\<close>

definition char_to_byte :: "char \<Rightarrow> uint8_t" where
  "char_to_byte c = of_nat (of_char c)"

definition byte_to_char :: "uint8_t \<Rightarrow> char" where
  "byte_to_char b = char_of (unat b)"

section \<open>Time conversion helpers\<close>

text \<open>
  \<^verbatim>\<open>uint32_t minSecToMs(uint8_t minutes, uint8_t seconds) { return (minutes * 60 + seconds) * 1000; }\<close>
  The operands are promoted to \<^verbatim>\<open>int\<close>; the largest value, \<open>(255 * 60 + 255) * 1000\<close>, is below
  \<open>2 ^ 31\<close>, so the signed computation never overflows and its conversion to
  \<^verbatim>\<open>uint32_t\<close> is the 32-bit computation written here.
\<close>

definition minSecToMs :: "uint8_t \<Rightarrow> uint8_t \<Rightarrow> uint32_t" where
  "minSecToMs minutes seconds = (ucast minutes * 60 + ucast seconds) * 1000"

text \<open>
  \<^verbatim>\<open>void msToMinSec(uint32_t ms, uint8_t& minutes, uint8_t& seconds)\<close>: the two reference
  parameters are returned as a pair; each assignment truncates to 8 bits.
\<close>

definition msToMinSec :: "uint32_t \<Rightarrow> uint8_t \<times> uint8_t" where
  "msToMinSec ms = (ucast (ms div 60000), ucast ((ms mod 60000) div 1000))"

section \<open>Distance sampling and the fill model\<close>

text \<open>
  \<^verbatim>\<open>measureDistanceCM\<close>: the trigger pulse and \<^verbatim>\<open>pulseIn(ECHO_PIN, HIGH, 30000)\<close> are the
  hardware; the echo duration in microseconds that \<^verbatim>\<open>pulseIn\<close> returns (0 on timeout) is
  the argument. \<^verbatim>\<open>duration * 0.034 / 2\<close> is computed in \<^verbatim>\<open>double\<close> and rounded when it is
  assigned to the \<^verbatim>\<open>float\<close>.
\<close>

definition measureDistanceCM :: "int \<Rightarrow> fp" where
  "measureDistanceCM duration =
     (if duration = 0 then fp_int (- 1)
      else
        let distance = double_to_float
              (fp_div binary64 (fp_mul binary64 (long_to_double duration) lit_0_034)
                 (fp_int 2))
        in distance)"

text \<open>
  \<^verbatim>\<open>calculateWaterLevel\<close>: the comparisons and \<^verbatim>\<open>distance - 20.0\<close> and \<^verbatim>\<open>... * 100.0\<close> have a
  \<^verbatim>\<open>double\<close> operand and are computed in \<^verbatim>\<open>double\<close>; \<^verbatim>\<open>barrelHeight - adjustedDistance\<close> and
  the division have two \<^verbatim>\<open>float\<close> operands and are computed in \<^verbatim>\<open>float\<close>; each assignment to a
  \<^verbatim>\<open>float\<close> variable rounds.
\<close>

definition calculateWaterLevel :: "fp \<Rightarrow> fp \<Rightarrow> fp" where
  "calculateWaterLevel distance barrelHeight =
     (if fp_lt distance (fp_int 20) then fp_int 0
      else
        let adjustedDistance = double_to_float (fp_sub binary64 distance (fp_int 20));
            waterLevel = double_to_float
              (fp_mul binary64
                 (fp_div binary32 (fp_sub binary32 barrelHeight adjustedDistance) barrelHeight)
                 (fp_int 100));
            waterLevel = (if fp_lt waterLevel (fp_int 0) then fp_int 0 else waterLevel);
            waterLevel = (if fp_lt (fp_int 100) waterLevel then fp_int 100 else waterLevel)
        in waterLevel)"

section \<open>The configuration record\<close>

text \<open>
  \<^verbatim>\<open>struct Config\<close>. The three arrays (\<^verbatim>\<open>std::array<uint8_t, 6>\<close>, \<^verbatim>\<open>char[16]\<close>, \<^verbatim>\<open>char[32]\<close>) are
  lists; \<open>Config_sized\<close> says that they have the sizes the C types fix.
\<close>

record Config =
  parentMac :: "uint8_t list"
  refreshRateMs :: uint32_t
  barrelHeightCm :: float32
  ledEnabled :: bool
  ssidPrefix :: "char list"
  wifiPassword :: "char list"

definition Config_sized :: "Config \<Rightarrow> bool" where
  "Config_sized cfg \<longleftrightarrow>
     length (parentMac cfg) = 6 \<and> length (ssidPrefix cfg) = 16 \<and> length (wifiPassword cfg) = 32"

text \<open>The default member initialisers of \<^verbatim>\<open>struct Config\<close>; \<open>0x42480000\<close> is \<^verbatim>\<open>50.0f\<close>.\<close>

definition default_config :: Config where
  "default_config =
     \<lparr>parentMac = [0xFF, 0xFF, 0xFF, 0xFF, 0xFF, 0xFF],
      refreshRateMs = 5000,
      barrelHeightCm = 0x42480000,
      ledEnabled = True,
      ssidPrefix = ''WATER_SENSOR_'' @ replicate 3 (CHR 0x00),
      wifiPassword = ''HardPassword1234'' @ replicate 16 (CHR 0x00)\<rparr>"

section \<open>The persistent store\<close>

text \<open>
  The ESP8266 \<^verbatim>\<open>EEPROM\<close> object is a library, not part of this repository.
  \<^verbatim>\<open>EEPROM.begin(EEPROM_SIZE)\<close> copies the flash sector into a RAM buffer,
  \<^verbatim>\<open>EEPROM.write\<close> and \<^verbatim>\<open>EEPROM.read\<close> work on the buffer, and \<^verbatim>\<open>EEPROM.commit()\<close> writes the
  buffer back and reports whether that succeeded. The store is the flash content, a byte for
  each address; whether a commit succeeds is decided by the medium and is an argument
  \<open>commit_ok\<close> of every operation that commits. A failed commit leaves the flash as it was.
\<close>

type_synonym eeprom = "nat \<Rightarrow> uint8_t"

definition EEPROM_SIZE :: nat where
  "EEPROM_SIZE = 64"

definition EEPROM_commit :: "bool \<Rightarrow> eeprom \<Rightarrow> eeprom \<Rightarrow> eeprom" where
  "EEPROM_commit ok buf flash = (if ok then buf else flash)"

definition saveConfig :: "bool \<Rightarrow> Config \<Rightarrow> eeprom \<Rightarrow> bool \<times> eeprom" where
  "saveConfig commit_ok cfg flash =
     (let buf = flash;
          buf = fold (\<lambda>i b. b(i := parentMac cfg ! i)) [0..<6] buf;
          buf = fold (\<lambda>i b. b(6 + i := ucast (drop_bit (i * 8) (refreshRateMs cfg) AND 0xFF)))
                  [0..<4] buf;
          barrelUnion = barrelHeightCm cfg;
          buf = fold (\<lambda>i b. b(10 + i := ucast (drop_bit (i * 8) barrelUnion AND 0xFF)))
                  [0..<4] buf;
          buf = buf(14 := (if ledEnabled cfg then 0x01 else 0x00));
          buf = fold (\<lambda>i b. b(15 + i := char_to_byte (ssidPrefix cfg ! i))) [0..<16] buf;
          buf = fold (\<lambda>i b. b(31 + i := char_to_byte (wifiPassword cfg ! i))) [0..<32] buf;
          buf = buf(63 := 0xAA);
          success = commit_ok
      in (success, EEPROM_commit commit_ok buf flash))"

text \<open>
  \<^verbatim>\<open>bool loadConfig(Config& cfg)\<close>: the record passed by reference is returned with the result.
\<close>

definition loadConfig :: "eeprom \<Rightarrow> Config \<Rightarrow> bool \<times> Config" where
  "loadConfig flash cfg =
     (if flash 63 \<noteq> 0xAA then (False, cfg)
      else
        let cfg = cfg\<lparr>parentMac := fold (\<lambda>i m. m[i := flash i]) [0..<6] (parentMac cfg)\<rparr>;
            cfg = cfg\<lparr>refreshRateMs := 0\<rparr>;
            cfg = cfg\<lparr>refreshRateMs :=
                    fold (\<lambda>i u. u OR push_bit (i * 8) (ucast (flash (6 + i)))) [0..<4]
                      (refreshRateMs cfg)\<rparr>;
            barrelUnion = (0 :: uint32_t);
            barrelUnion = fold (\<lambda>i u. u OR push_bit (i * 8) (ucast (flash (10 + i)))) [0..<4]
                            barrelUnion;
            cfg = cfg\<lparr>barrelHeightCm := barrelUnion\<rparr>;
            cfg = cfg\<lparr>ledEnabled := (flash 14 = 0x01)\<rparr>;
            cfg = cfg\<lparr>ssidPrefix :=
                    fold (\<lambda>i p. p[i := byte_to_char (flash (15 + i))]) [0..<16] (ssidPrefix cfg)\<rparr>;
            cfg = cfg\<lparr>wifiPassword :=
                    fold (\<lambda>i p. p[i := byte_to_char (flash (31 + i))]) [0..<32] (wifiPassword cfg)\<rparr>
        in (True, cfg))"

text \<open>\<^verbatim>\<open>clearConfig\<close> discards the result of \<^verbatim>\<open>EEPROM.commit()\<close>.\<close>

definition clearConfig :: "bool \<Rightarrow> eeprom \<Rightarrow> eeprom" where
  "clearConfig commit_ok flash =
     (let buf = flash;
          buf = fold (\<lambda>i b. b(i := 0xFF)) [0..<EEPROM_SIZE] buf
      in EEPROM_commit commit_ok buf flash)"

text \<open>
  The bytes that \<^verbatim>\<open>saveConfig\<close> leaves in its buffer, address by address: the layout of
  the stored record. \<open>saveConfig_result\<close> below proves that the loops of \<^verbatim>\<open>saveConfig\<close> write
  exactly this.
\<close>

definition stored_image :: "Config \<Rightarrow> eeprom \<Rightarrow> eeprom" where
  "stored_image cfg flash =
     (\<lambda>a. if a = 63 then 0xAA
          else if 31 \<le> a \<and> a < 31 + 32 then char_to_byte (wifiPassword cfg ! (a - 31))
          else if 15 \<le> a \<and> a < 15 + 16 then char_to_byte (ssidPrefix cfg ! (a - 15))
          else if a = 14 then (if ledEnabled cfg then 0x01 else 0x00)
          else if 10 \<le> a \<and> a < 10 + 4
            then ucast (drop_bit ((a - 10) * 8) (barrelHeightCm cfg) AND 0xFF)
          else if 6 \<le> a \<and> a < 6 + 4
            then ucast (drop_bit ((a - 6) * 8) (refreshRateMs cfg) AND 0xFF)
          else if a < 6 then parentMac cfg ! a
          else flash a)"

section \<open>The save request\<close>

text \<open>
  \<^verbatim>\<open>handleSave\<close> reads its arguments from the web server object: \<^verbatim>\<open>server.hasArg(k)\<close> and
  \<^verbatim>\<open>server.arg(k)\<close> (the empty \<^verbatim>\<open>String\<close> when the argument is absent). A request is the
  map from argument names to values.
\<close>

type_synonym request = "string \<rightharpoonup> string"

definition server_hasArg :: "request \<Rightarrow> string \<Rightarrow> bool" where
  "server_hasArg req k \<longleftrightarrow> req k \<noteq> None"

definition server_arg :: "request \<Rightarrow> string \<Rightarrow> string" where
  "server_arg req k = (case req k of None \<Rightarrow> [] | Some v \<Rightarrow> v)"

text \<open>
  The C library calls of \<^verbatim>\<open>parseMac\<close> and \<^verbatim>\<open>handleSave\<close>. \<open>c_str\<close> is the text a C function
  sees, up to the first NUL. \<open>scan_hhx\<close> is one \<^verbatim>\<open>%hhx\<close> conversion of \<^verbatim>\<open>sscanf\<close>: leading white
  space, an optional sign, an optional \<^verbatim>\<open>0x\<close> that a hexadecimal digit follows, and the longest
  run of hexadecimal digits, converted as \<^verbatim>\<open>strtoul\<close> converts it (a value above \<open>2 ^ 32 - 1\<close>
  becomes \<open>2 ^ 32 - 1\<close>, a smaller one is negated after a minus sign) and stored modulo 256; it
  returns the value and the rest of the input, or \<open>None\<close> when no digit is found. \<open>sscanf_mac k\<close> is \<^verbatim>\<open>sscanf\<close> on \<open>k\<close> such conversions
  separated by colons: it returns the values converted before the first failure, which
  \<^verbatim>\<open>sscanf\<close> has by then stored through the corresponding pointers.
\<close>

definition isspace :: "char \<Rightarrow> bool" where
  "isspace c \<longleftrightarrow> c = CHR '' '' \<or> (9 \<le> (of_char c :: nat) \<and> (of_char c :: nat) \<le> 13)"

definition c_str :: "string \<Rightarrow> string" where
  "c_str s = takeWhile (\<lambda>c. c \<noteq> CHR 0x00) s"

definition hex_digit :: "char \<Rightarrow> nat option" where
  "hex_digit c =
     (let n = (of_char c :: nat)
      in if 48 \<le> n \<and> n \<le> 57 then Some (n - 48)
         else if 97 \<le> n \<and> n \<le> 102 then Some (n - 87)
         else if 65 \<le> n \<and> n \<le> 70 then Some (n - 55)
         else None)"

fun hex_digits :: "nat \<Rightarrow> string \<Rightarrow> nat \<times> string" where
  "hex_digits acc [] = (acc, [])"
| "hex_digits acc (c # cs) =
     (case hex_digit c of
        None \<Rightarrow> (acc, c # cs)
      | Some d \<Rightarrow> hex_digits (acc * 16 + d) cs)"

definition scan_sign :: "string \<Rightarrow> bool \<times> string" where
  "scan_sign s =
     (case s of
        [] \<Rightarrow> (False, s)
      | c # cs \<Rightarrow> if c = CHR ''-'' then (True, cs)
                  else if c = CHR ''+'' then (False, cs)
                  else (False, s))"

definition skip_0x :: "string \<Rightarrow> string" where
  "skip_0x s =
     (case s of
        z # x # d # cs \<Rightarrow>
          if z = CHR ''0'' \<and> (x = CHR ''x'' \<or> x = CHR ''X'') \<and> hex_digit d \<noteq> None
          then d # cs else s
      | _ \<Rightarrow> s)"

definition scan_hhx :: "string \<Rightarrow> (uint8_t \<times> string) option" where
  "scan_hhx s =
     (let (neg, s1) = scan_sign (dropWhile isspace s);
          s2 = skip_0x s1
      in case s2 of
           [] \<Rightarrow> None
         | c # cs \<Rightarrow>
             if hex_digit c = None then None
             else let (v, rest) = hex_digits 0 s2
                  in Some (if v > 0xFFFFFFFF then 0xFF
                           else if neg then - of_nat v else of_nat v, rest))"

fun sscanf_mac :: "nat \<Rightarrow> string \<Rightarrow> uint8_t list" where
  "sscanf_mac 0 s = []"
| "sscanf_mac (Suc k) s =
     (case scan_hhx s of
        None \<Rightarrow> []
      | Some (v, rest) \<Rightarrow>
          v # (if k = 0 then []
               else case rest of
                      [] \<Rightarrow> []
                    | c # cs \<Rightarrow> if c = CHR '':'' then sscanf_mac k cs else []))"

text \<open>
  \<^verbatim>\<open>bool parseMac(const String& s, std::array<uint8_t,6>& out)\<close>: the array passed by
  reference is returned with the result; the bytes that \<^verbatim>\<open>sscanf\<close> stored replace its first
  entries whether or not all six conversions succeed.
\<close>

definition parseMac :: "string \<Rightarrow> uint8_t list \<Rightarrow> bool \<times> uint8_t list" where
  "parseMac s out =
     (let vs = sscanf_mac 6 (c_str s)
      in (length vs = 6, vs @ drop (length vs) out))"


text \<open>
  \<^verbatim>\<open>String::toInt()\<close> is \<^verbatim>\<open>atol\<close> on the text: white space, an optional sign, decimal digits
  up to the first other character (0 when there is none), saturated to the range of a
  32-bit \<^verbatim>\<open>long\<close>.
\<close>

fun dec_digits :: "nat \<Rightarrow> string \<Rightarrow> nat" where
  "dec_digits acc [] = acc"
| "dec_digits acc (c # cs) =
     (let n = (of_char c :: nat)
      in if 48 \<le> n \<and> n \<le> 57 then dec_digits (acc * 10 + (n - 48)) cs else acc)"

definition atol :: "string \<Rightarrow> int" where
  "atol s =
     (let (neg, s1) = scan_sign (dropWhile isspace s);
          v = int (dec_digits 0 s1);
          r = (if neg then - v else v)
      in max (- (2 ^ 31)) (min (2 ^ 31 - 1) r))"

definition toInt :: "string \<Rightarrow> int" where
  "toInt s = atol (c_str s)"

text \<open>
  \<^verbatim>\<open>strcpy(dst, src)\<close> into a \<^verbatim>\<open>char\<close> array: the text and its terminating NUL replace the
  first entries, the rest of the array stays. Both calls in \<^verbatim>\<open>handleSave\<close> are guarded by a
  length check that keeps the copy inside the array.
\<close>

definition strcpy :: "char list \<Rightarrow> string \<Rightarrow> char list" where
  "strcpy dst src = (let s = c_str src @ [CHR 0x00] in s @ drop (length s) dst)"

text \<open>
  The result of a handler: the HTTP response, whether \<^verbatim>\<open>ESP.restart()\<close> was called, the global
  \<^verbatim>\<open>config\<close> and the store.
\<close>

datatype response = Response nat string

fun status :: "response \<Rightarrow> nat" where
  "status (Response code body) = code"

text \<open>The last block of \<^verbatim>\<open>handleSave\<close> (\<^verbatim>\<open>// Save configuration\<close>), reached on two paths.\<close>

definition handleSave_store ::
  "bool \<Rightarrow> Config \<Rightarrow> eeprom \<Rightarrow> response \<times> bool \<times> Config \<times> eeprom" where
  "handleSave_store commit_ok config flash =
     (let (success, flash') = saveConfig commit_ok config flash
      in if success then (Response 200 ''Settings saved. Rebooting...'', True, config, flash')
         else (Response 500 ''Failed to save settings'', False, config, flash'))"

definition handleSave ::
  "bool \<Rightarrow> request \<Rightarrow> Config \<Rightarrow> eeprom \<Rightarrow> response \<times> bool \<times> Config \<times> eeprom" where
  "handleSave commit_ok req config flash =
     (if \<not> server_hasArg req ''pmac'' \<or> \<not> server_hasArg req ''minutes''
         \<or> \<not> server_hasArg req ''seconds'' \<or> \<not> server_hasArg req ''barrel''
      then (Response 400 ''Missing parameters'', False, config, flash)
      else
        let macStr = server_arg req ''pmac'';
            (ok, mac) = parseMac macStr (parentMac config);
            config = config\<lparr>parentMac := mac\<rparr>
        in if \<not> ok then (Response 400 ''Bad MAC format'', False, config, flash)
        else
          let minutes = (word_of_int (toInt (server_arg req ''minutes'')) :: uint8_t);
              seconds = (word_of_int (toInt (server_arg req ''seconds'')) :: uint8_t)
          in if minutes > 59 \<or> seconds > 59
          then (Response 400 ''Invalid time format'', False, config, flash)
          else
            let config = config\<lparr>refreshRateMs := minSecToMs minutes seconds\<rparr>;
                barrel = toInt (server_arg req ''barrel'')
            in if barrel \<le> 0 \<or> barrel > 1000
            then (Response 400 ''Invalid barrel height'', False, config, flash)
            else
              let config = config\<lparr>barrelHeightCm := float_of_int barrel\<rparr>;
                  config = config\<lparr>ledEnabled := server_hasArg req ''led''\<rparr>;
                  ssidStr = server_arg req ''ssid'';
                  config = (if length ssidStr > 0 \<and> length ssidStr \<le> 15
                            then config\<lparr>ssidPrefix := strcpy (ssidPrefix config) ssidStr\<rparr>
                            else config);
                  passwordStr = server_arg req ''password''
              in if length passwordStr \<ge> 8 \<and> length passwordStr \<le> 31
              then handleSave_store commit_ok
                     (config\<lparr>wifiPassword := strcpy (wifiPassword config) passwordStr\<rparr>) flash
              else if length passwordStr > 0
              then (Response 400 ''WiFi password must be 8-31 characters long'', False, config, flash)
              else handleSave_store commit_ok config flash)"

section \<open>The runtime state\<close>

text \<open>
  The globals of \<^verbatim>\<open>main.cpp\<close> that the sampling and transmission code reads and writes.
  \<open>sent\<close> is not a variable of the program: it records the calls of \<^verbatim>\<open>esp_now_send\<close>, each
  with its target address and payload, oldest first.
\<close>

record Payload =
  distance :: fp
  waterLevel :: fp
  barrelHeight :: float32

record Runtime =
  config :: Config
  currentDistance :: fp
  currentWaterLevel :: fp
  lastSensorRead :: uint32_t
  espNowInitialized :: bool
  espNowSendSuccess :: bool
  lastEspNowSend :: uint32_t
  lastEspNowRetry :: uint32_t
  payload :: Payload
  sent :: "(uint8_t list \<times> Payload) list"

definition ESP_NOW_RETRY_MS :: uint32_t where
  "ESP_NOW_RETRY_MS = 1000"

text \<open>The initialisers of the globals.\<close>

definition globals_init :: Runtime where
  "globals_init =
     \<lparr>config = default_config,
      currentDistance = fp_int 0,
      currentWaterLevel = fp_int 0,
      lastSensorRead = 0,
      espNowInitialized = False,
      espNowSendSuccess = True,
      lastEspNowSend = 0,
      lastEspNowRetry = 0,
      payload = \<lparr>distance = fp_int 0, waterLevel = fp_int 0, barrelHeight = 0\<rparr>,
      sent = []\<rparr>"

text \<open>\<^verbatim>\<open>onEspNowSend(mac, status)\<close>, the completion callback of the carrier.\<close>

definition onEspNowSend :: "uint8_t \<Rightarrow> Runtime \<Rightarrow> Runtime" where
  "onEspNowSend stat st = st\<lparr>espNowSendSuccess := (stat = 0)\<rparr>"

text \<open>
  \<^verbatim>\<open>initEspNow\<close>: the results of \<^verbatim>\<open>esp_now_init\<close> and \<^verbatim>\<open>esp_now_add_peer\<close> are arguments.
\<close>

definition initEspNow :: "bool \<Rightarrow> bool \<Rightarrow> Runtime \<Rightarrow> bool" where
  "initEspNow init_ok peer_ok st =
     (if \<not> init_ok then False
      else
        let isDefaultMac = list_all (\<lambda>b. b = 0xFF) (take 6 (parentMac (config st)))
        in if isDefaultMac then False
           else if \<not> peer_ok then False
           else True)"

text \<open>
  \<^verbatim>\<open>sendEspNowData\<close>: \<open>result\<close> is what \<^verbatim>\<open>esp_now_send\<close> returns and \<open>now\<close> what \<^verbatim>\<open>millis()\<close>
  returns.
\<close>

definition sendEspNowData :: "uint8_t \<Rightarrow> uint32_t \<Rightarrow> Runtime \<Rightarrow> Runtime" where
  "sendEspNowData result now st =
     (if \<not> espNowInitialized st then st
      else
        let st = st\<lparr>payload := \<lparr>distance = currentDistance st,
                                 waterLevel = currentWaterLevel st,
                                 barrelHeight = barrelHeightCm (config st)\<rparr>\<rparr>;
            st = st\<lparr>sent := sent st @ [(parentMac (config st), payload st)]\<rparr>;
            st = (if result \<noteq> 0 then st\<lparr>espNowSendSuccess := False\<rparr> else st)
        in st\<lparr>lastEspNowSend := now\<rparr>)"

text \<open>
  \<^verbatim>\<open>updateSensorReadings\<close>: \<open>currentTime\<close> is the \<^verbatim>\<open>millis()\<close> read on entry, \<open>duration\<close> the
  echo duration of the measurement, \<open>result\<close> and \<open>sendTime\<close> the inputs of
  \<^verbatim>\<open>sendEspNowData\<close>.
\<close>

definition updateSensorReadings ::
  "uint32_t \<Rightarrow> int \<Rightarrow> uint8_t \<Rightarrow> uint32_t \<Rightarrow> Runtime \<Rightarrow> Runtime" where
  "updateSensorReadings currentTime duration result sendTime st =
     (if currentTime - lastSensorRead st \<ge> refreshRateMs (config st)
      then
        let st = st\<lparr>currentDistance := measureDistanceCM duration\<rparr>;
            st = st\<lparr>currentWaterLevel :=
                      calculateWaterLevel (currentDistance st)
                        (decode32 (barrelHeightCm (config st)))\<rparr>;
            st = st\<lparr>lastSensorRead := currentTime\<rparr>
        in if espNowInitialized st then sendEspNowData result sendTime st else st
      else st)"

text \<open>
  \<^verbatim>\<open>handleReadSensor\<close>, the handler of \<^verbatim>\<open>/read\<close>: \<open>now\<close> is the \<^verbatim>\<open>millis()\<close> it reads after the
  measurement. The JSON text it answers with is left out.
\<close>

definition handleReadSensor ::
  "int \<Rightarrow> uint32_t \<Rightarrow> uint8_t \<Rightarrow> uint32_t \<Rightarrow> Runtime \<Rightarrow> Runtime" where
  "handleReadSensor duration now result sendTime st =
     (let st = st\<lparr>currentDistance := measureDistanceCM duration\<rparr>;
          st = st\<lparr>currentWaterLevel :=
                    calculateWaterLevel (currentDistance st)
                      (decode32 (barrelHeightCm (config st)))\<rparr>;
          st = st\<lparr>lastSensorRead := now\<rparr>
      in if espNowInitialized st then sendEspNowData result sendTime st else st)"

text \<open>
  The retry block of \<^verbatim>\<open>loop()\<close>: \<open>now\<close> is the \<^verbatim>\<open>millis()\<close> of the condition, \<open>after\<close> the
  \<^verbatim>\<open>millis()\<close> assigned to \<^verbatim>\<open>lastEspNowRetry\<close>.
\<close>

definition loop_retry ::
  "uint32_t \<Rightarrow> uint8_t \<Rightarrow> uint32_t \<Rightarrow> uint32_t \<Rightarrow> Runtime \<Rightarrow> Runtime" where
  "loop_retry now result sendTime after st =
     (if espNowInitialized st \<and> \<not> espNowSendSuccess st
         \<and> now - lastEspNowRetry st \<ge> ESP_NOW_RETRY_MS
      then (sendEspNowData result sendTime st)\<lparr>lastEspNowRetry := after\<rparr>
      else st)"

text \<open>
  The part of \<^verbatim>\<open>setup()\<close> that sets these globals: the configuration is loaded from the
  store, ESP-NOW is initialised, and a first measurement is taken.
\<close>

definition setup_globals :: "eeprom \<Rightarrow> bool \<Rightarrow> bool \<Rightarrow> int \<Rightarrow> uint32_t \<Rightarrow> Runtime" where
  "setup_globals flash init_ok peer_ok duration now =
     (let st = globals_init;
          st = st\<lparr>config := snd (loadConfig flash (config st))\<rparr>;
          st = st\<lparr>espNowInitialized := initEspNow init_ok peer_ok st\<rparr>;
          st = st\<lparr>currentDistance := measureDistanceCM duration\<rparr>;
          st = st\<lparr>currentWaterLevel :=
                    calculateWaterLevel (currentDistance st)
                      (decode32 (barrelHeightCm (config st)))\<rparr>
      in st\<lparr>lastSensorRead := now\<rparr>)"

text \<open>
  What happens to the transmission state between two passes of \<^verbatim>\<open>loop()\<close> and inside one:
  a completion callback, a manual sample requested over HTTP, the scheduled sample, the
  retry block. \<open>exec\<close> runs a sequence of them.
\<close>

datatype event =
    Callback uint8_t
  | Manual int uint32_t uint8_t uint32_t
  | Scheduled uint32_t int uint8_t uint32_t
  | Retry uint32_t uint8_t uint32_t uint32_t

fun step :: "event \<Rightarrow> Runtime \<Rightarrow> Runtime" where
  "step (Callback stat) st = onEspNowSend stat st"
| "step (Manual duration now result sendTime) st = handleReadSensor duration now result sendTime st"
| "step (Scheduled currentTime duration result sendTime) st =
     updateSensorReadings currentTime duration result sendTime st"
| "step (Retry now result sendTime after) st = loop_retry now result sendTime after st"



section \<open>The button\<close>

text \<open>
  \<^verbatim>\<open>checkButton\<close> keeps two \<^verbatim>\<open>static\<close> locals. \<open>low\<close> says that \<^verbatim>\<open>digitalRead(BTN_PIN)\<close> is
  \<^verbatim>\<open>LOW\<close> (pressed), \<open>now\<close> is the one \<^verbatim>\<open>millis()\<close> that a call reads. The result says whether
  the long-press block ran: \<^verbatim>\<open>clearConfig(); blink(3,100); ESP.restart();\<close>, whose effect on
  the store is \<open>clearConfig\<close>.
\<close>

record ButtonStatics =
  t0 :: uint32_t
  pressed :: bool

definition BTN_HOLD_MS :: uint32_t where
  "BTN_HOLD_MS = 4000"

definition button_boot :: ButtonStatics where
  "button_boot = \<lparr>t0 = 0, pressed = False\<rparr>"

definition checkButton ::
  "bool \<Rightarrow> bool \<Rightarrow> uint32_t \<Rightarrow> ButtonStatics \<times> eeprom \<Rightarrow> (ButtonStatics \<times> eeprom) \<times> bool" where
  "checkButton commit_ok low now s =
     (let (bs, flash) = s
      in if low then
           (if t0 bs = 0 then ((bs\<lparr>t0 := now, pressed := True\<rparr>, flash), False)
            else if now - t0 bs \<ge> BTN_HOLD_MS then ((bs, clearConfig commit_ok flash), True)
            else ((bs, flash), False))
         else if pressed bs \<and> t0 bs > 0 then ((bs\<lparr>pressed := False, t0 := 0\<rparr>, flash), False)
         else ((bs, flash), False))"

text \<open>
  \<open>run_button\<close> calls \<^verbatim>\<open>checkButton\<close> once for each pass of \<^verbatim>\<open>loop()\<close>, given as the line
  level and the time read. It counts the factory resets. \<^verbatim>\<open>ESP.restart()\<close> starts the
  program again, which initialises the statics; the store keeps its content.
\<close>

fun run_button ::
  "bool \<Rightarrow> (bool \<times> uint32_t) list \<Rightarrow> ButtonStatics \<times> eeprom \<Rightarrow> nat \<times> ButtonStatics \<times> eeprom" where
  "run_button commit_ok [] s = (0, s)"
| "run_button commit_ok ((low, now) # ticks) s =
     (case checkButton commit_ok low now s of
        ((bs, flash), True) \<Rightarrow>
          (case run_button commit_ok ticks (button_boot, flash) of (n, s') \<Rightarrow> (Suc n, s'))
      | (s', False) \<Rightarrow> run_button commit_ok ticks s')"

section \<open>Concrete inputs\<close>

text \<open>The inputs at which the theorems below run the code.\<close>

definition flash_blank :: eeprom where
  "flash_blank = (\<lambda>a. 0xFF)"

definition config_peer :: Config where
  "config_peer = default_config\<lparr>parentMac := [0xAA, 0xBB, 0xCC, 0xDD, 0xEE, 0x01]\<rparr>"


definition flash_peer :: eeprom where
  "flash_peer = snd (saveConfig True config_peer flash_blank)"

text \<open>A save request whose barrel height is out of range; the other fields are valid.\<close>

definition req_bad_barrel :: request where
  "req_bad_barrel =
     [''pmac'' \<mapsto> ''AA:BB:CC:DD:EE:01'', ''minutes'' \<mapsto> ''1'', ''seconds'' \<mapsto> ''30'',
      ''barrel'' \<mapsto> ''0'']"

text \<open>A save request whose address has two fields instead of six.\<close>

definition req_bad_mac :: request where
  "req_bad_mac =
     [''pmac'' \<mapsto> ''12:34'', ''minutes'' \<mapsto> ''0'', ''seconds'' \<mapsto> ''5'',
      ''barrel'' \<mapsto> ''50'']"

text \<open>A valid save request.\<close>

definition req_valid :: request where
  "req_valid =
     [''pmac'' \<mapsto> ''aa:bb:cc:dd:ee:01'', ''minutes'' \<mapsto> ''1'', ''seconds'' \<mapsto> ''30'',
      ''barrel'' \<mapsto> ''50'', ''led'' \<mapsto> ''on'']"

text \<open>A save request with zero minutes and zero seconds.\<close>

definition req_zero_interval :: request where
  "req_zero_interval =
     [''pmac'' \<mapsto> ''AA:BB:CC:DD:EE:01'', ''minutes'' \<mapsto> ''0'', ''seconds'' \<mapsto> ''0'',
      ''barrel'' \<mapsto> ''50'']"

text \<open>
  A device that boots at 300 ms with a peer configured, takes its first scheduled sample at
  5300 ms, whose \<^verbatim>\<open>esp_now_send\<close> at 5301 ms returns an error, and reaches the retry block of the
  same pass of \<^verbatim>\<open>loop()\<close> at 5302 ms.
\<close>

definition boot_peer :: Runtime where
  "boot_peer = setup_globals flash_peer True True 1500 300"



section \<open>Word arithmetic used below\<close>

lemma unat_uint8_bound: "unat (b :: uint8_t) < 256"
  using unsigned_less [of b, where 'a = nat] by simp

lemma unat_ucast_8_32: "unat (ucast (b :: uint8_t) :: uint32_t) = unat b"
proof -
  have "unat b < 2 ^ 32" using unat_uint8_bound [of b] by simp
  then show ?thesis
    by (simp add: unsigned_ucast_eq take_bit_nat_eq_self)
qed

lemma ucast_32_8_eqI:
  assumes "unat (w :: uint32_t) = unat (b :: uint8_t)"
  shows "ucast w = b"
proof -
  have "unat (ucast w :: uint8_t) = unat b"
    using assms unat_uint8_bound [of b]
    by (simp add: unsigned_ucast_eq take_bit_nat_eq_self)
  then show ?thesis by (simp add: word_unat_eq_iff)
qed

lemma unat_minSecToMs:
  "unat (minSecToMs m s) = (unat m * 60 + unat s) * 1000"
proof -
  have m: "unat m < 256" and s: "unat s < 256"
    by (rule unat_uint8_bound)+
  then have "(unat m * 60 + unat s) * 1000 < 2 ^ 32" by simp
  then show ?thesis
    unfolding minSecToMs_def
    by (simp add: unat_word_ariths unat_ucast_8_32)
qed

section \<open>Lemmas on the store\<close>

lemma byte_to_char_to_byte: "byte_to_char (char_to_byte c) = c"
  unfolding byte_to_char_def char_to_byte_def
  by (simp add: unat_of_nat)

lemma fold_write_bytes:
  "fold (\<lambda>i b. b(off + i := f i)) [0..<n] buf =
     (\<lambda>a. if off \<le> a \<and> a < off + n then f (a - off) else buf a)"
proof (induction n)
  case 0
  show ?case by (rule ext) auto
next
  case (Suc n)
  have "fold (\<lambda>i b. b(off + i := f i)) [0..<Suc n] buf =
        (fold (\<lambda>i b. b(off + i := f i)) [0..<n] buf)(off + n := f n)"
    by simp
  also have "\<dots> = (\<lambda>a. if off \<le> a \<and> a < off + n then f (a - off) else buf a)(off + n := f n)"
    by (simp only: Suc.IH)
  also have "\<dots> = (\<lambda>a. if off \<le> a \<and> a < off + Suc n then f (a - off) else buf a)"
    by (rule ext) auto
  finally show ?case .
qed

lemma fold_write_bytes0:
  "fold (\<lambda>i b. b(i := f i)) [0..<n] buf = (\<lambda>a. if a < n then f a else buf a)"
  using fold_write_bytes [of 0 f n buf] by (simp cong: if_cong)

lemma mask_8_32: "(0xFF :: uint32_t) = mask 8"
  by (simp add: mask_eq_exp_minus_1)

lemma bit_byte_of_word:
  fixes w :: uint32_t
  shows "bit (ucast (ucast (w AND 0xFF) :: uint8_t) :: uint32_t) n \<longleftrightarrow> n < 8 \<and> bit w n"
  unfolding mask_8_32
  by (auto simp: bit_simps)

lemma le_bytes_32:
  fixes w :: uint32_t
  shows "fold (\<lambda>i u. u OR push_bit (i * 8) (ucast (ucast (drop_bit (i * 8) w AND 0xFF) :: uint8_t)))
           [0..<4] 0 = w"
    (is "fold ?step [0..<4] 0 = w")
proof -
  have u: "[0..<4] = [0, 1, 2, 3]" by (simp add: upt_rec)
  show ?thesis
    unfolding u
  proof (rule bit_word_eqI)
    fix n assume n: "n < LENGTH(32)"
    then consider "n < 8" | "8 \<le> n" "n < 16" | "16 \<le> n" "n < 24" | "24 \<le> n" "n < 32"
      by fastforce
    then show "bit (fold ?step [0, 1, 2, 3] 0) n = bit w n"
      by cases (auto simp: bit_or_iff bit_push_bit_iff bit_byte_of_word bit_drop_bit_eq)
  qed
qed

lemma fold_list_update:
  "n \<le> length xs \<Longrightarrow> fold (\<lambda>i ys. ys[i := g i]) [0..<n] xs = map g [0..<n] @ drop n xs"
proof (induction n)
  case 0
  show ?case by simp
next
  case (Suc n)
  then have "fold (\<lambda>i ys. ys[i := g i]) [0..<Suc n] xs = (map g [0..<n] @ drop n xs)[n := g n]"
    by simp
  also have "\<dots> = map g [0..<n] @ (drop n xs)[0 := g n]"
    by (simp add: list_update_append)
  also have "(drop n xs)[0 := g n] = g n # drop (Suc n) xs"
    using Suc.prems by (metis Cons_nth_drop_Suc Suc_le_lessD list_update_code(2))
  finally show ?case by simp
qed

lemma fold_list_update_all:
  assumes "length xs = n" and "length ys = n" and "\<And>i. i < n \<Longrightarrow> g i = ys ! i"
  shows "fold (\<lambda>i zs. zs[i := g i]) [0..<n] xs = ys"
proof -
  have "fold (\<lambda>i zs. zs[i := g i]) [0..<n] xs = map g [0..<n]"
    using assms(1) by (simp add: fold_list_update)
  also have "\<dots> = map ((!) ys) [0..<n]"
    using assms(3) by simp
  also have "\<dots> = ys"
    using assms(2) map_nth [of ys] by simp
  finally show ?thesis .
qed

section \<open>The conversion between integers and binary32 patterns\<close>

text \<open>
  The pattern that \<open>float_of_int\<close> gives stands for the integer itself on the barrel heights
  that \<^verbatim>\<open>handleSave\<close> admits (and on every positive integer below \<open>2 ^ 24\<close>).
\<close>

lemma ilog2_bounds: "0 < n \<Longrightarrow> 2 ^ ilog2 n \<le> n \<and> n < 2 ^ Suc (ilog2 n)"
proof (induction n rule: ilog2.induct)
  case (1 n)
  show ?case
  proof (cases "n < 2")
    case True
    with "1.prems" have "n = 1" by simp
    then show ?thesis by (simp add: ilog2.simps [of "Suc 0"])
  next
    case False
    then have h: "0 < n div 2" by simp
    have ih: "2 ^ ilog2 (n div 2) \<le> n div 2 \<and> n div 2 < 2 ^ Suc (ilog2 (n div 2))"
      using "1.IH" [OF False h] .
    have e: "ilog2 n = Suc (ilog2 (n div 2))"
      using False by (subst ilog2.simps) simp
    from ih have "2 * 2 ^ ilog2 (n div 2) \<le> n" and "n < 2 * 2 ^ Suc (ilog2 (n div 2))"
      by linarith+
    then show ?thesis
      unfolding e by simp
  qed
qed

lemma mask_23_32: "(0x7FFFFF :: uint32_t) = mask 23"
  by (simp add: mask_eq_exp_minus_1)

lemma unat_word_of_int_int:
  "n < 2 ^ 32 \<Longrightarrow> unat (word_of_int (int n) :: uint32_t) = n"
  by (simp add: unat_of_nat)

lemma float_fields:
  assumes ex: "ex < 256" and fr: "fr < 2 ^ 23"
  shows "unat (drop_bit 23 (word_of_int (int (ex * 2 ^ 23 + fr)) :: uint32_t) AND 0xFF) = ex"
    and "unat ((word_of_int (int (ex * 2 ^ 23 + fr)) :: uint32_t) AND 0x7FFFFF) = fr"
    and "\<not> bit (word_of_int (int (ex * 2 ^ 23 + fr)) :: uint32_t) 31"
proof -
  define B where "B = ex * 2 ^ 23 + fr"
  define w where "w = (word_of_int (int B) :: uint32_t)"
  have "B < 256 * 2 ^ 23" using ex fr by (simp add: B_def)
  then have B: "B < 2 ^ 31" by simp
  then have u: "unat w = B"
    unfolding w_def by (intro unat_word_of_int_int) simp
  have d: "B div 2 ^ 23 = ex" using fr by (simp add: B_def)
  have m: "B mod 2 ^ 23 = fr" using fr by (simp add: B_def)
  have "unat (drop_bit 23 w) = drop_bit 23 (unat w)"
    by (rule unat_drop_bit_eq)
  also have "\<dots> = B div 2 ^ 23"
    by (simp only: u drop_bit_eq_div)
  finally have dw: "unat (drop_bit 23 w) = ex"
    by (simp only: d)
  have "unat (drop_bit 23 w AND mask 8) = take_bit 8 (unat (drop_bit 23 w))"
    by (simp only: unsigned_take_bit_eq flip: take_bit_eq_mask)
  also have "\<dots> = ex"
    using ex by (simp only: dw) (simp add: take_bit_nat_eq_self)
  finally have "unat (drop_bit 23 w AND mask 8) = ex" .
  then show "unat (drop_bit 23 (word_of_int (int (ex * 2 ^ 23 + fr)) :: uint32_t) AND 0xFF) = ex"
    by (simp only: mask_8_32 w_def B_def)
  have "unat (w AND mask 23) = take_bit 23 (unat w)"
    by (simp only: unsigned_take_bit_eq flip: take_bit_eq_mask)
  also have "\<dots> = B mod 2 ^ 23"
    by (simp only: u take_bit_eq_mod)
  finally have "unat (w AND mask 23) = fr"
    by (simp only: m)
  then show "unat ((word_of_int (int (ex * 2 ^ 23 + fr)) :: uint32_t) AND 0x7FFFFF) = fr"
    by (simp only: mask_23_32 w_def B_def)
  have "bit w 31 \<longleftrightarrow> bit (unat w) 31"
    by (simp add: bit_unsigned_iff)
  also have "\<dots> \<longleftrightarrow> odd (B div 2 ^ 31)"
    by (simp only: u bit_iff_odd)
  also have "B div 2 ^ 31 = 0"
    using B by simp
  finally have "\<not> bit w 31" by simp
  then show "\<not> bit (word_of_int (int (ex * 2 ^ 23 + fr)) :: uint32_t) 31"
    unfolding w_def B_def .
qed

lemma pow2_neg: "pow2 (- int k) = 1 / 2 ^ k"
  by (cases "k = 0") (simp_all add: pow2_def)

lemma decode32_float_of_nat:
  assumes "0 < n" and "n < 2 ^ 24"
  shows "is_finite (decode32 (float_of_nat n)) \<and> valof (decode32 (float_of_nat n)) = real n"
proof -
  define e where "e = ilog2 n"
  have b: "2 ^ e \<le> n" "n < 2 ^ Suc e"
    using ilog2_bounds [OF assms(1)] by (simp_all add: e_def)
  have e23: "e \<le> 23"
  proof (rule ccontr)
    assume "\<not> e \<le> 23"
    then have "24 \<le> e" by simp
    then have "(2::nat) ^ 24 \<le> 2 ^ e" by (intro power_increasing) simp_all
    with b(1) assms(2) show False by simp
  qed
  define m where "m = n * 2 ^ (23 - e)"
  have pw: "(2::nat) ^ e * 2 ^ (23 - e) = 2 ^ 23"
    using e23 by (simp flip: power_add)
  have m_lo: "2 ^ 23 \<le> m"
    using b(1) pw unfolding m_def by (metis mult_le_mono1)
  have m_hi: "m < 2 ^ 24"
  proof -
    have "m < 2 ^ Suc e * 2 ^ (23 - e)"
      unfolding m_def using b(2) by simp
    also have "\<dots> = 2 ^ 24" using pw by simp
    finally show ?thesis .
  qed
  have ex: "e + 127 < 256" using e23 by simp
  have fr: "m - 2 ^ 23 < 2 ^ 23" using m_hi m_lo by simp
  have bits: "float_of_nat n = word_of_int (int ((e + 127) * 2 ^ 23 + (m - 2 ^ 23)))"
    using assms(1) e23 by (simp add: float_of_nat_def Let_def e_def m_def)
  have mant: "2 ^ 23 + (m - 2 ^ 23) = n * 2 ^ (23 - e)"
    using m_lo by (simp add: m_def)
  have ne: "e + 127 \<noteq> 255" "e + 127 \<noteq> 0" using e23 by simp_all
  have dec: "decode32 (float_of_nat n) = FNum False (n * 2 ^ (23 - e)) (int (e + 127) - 150)"
    unfolding bits decode32_def Let_def float_fields(1) [OF ex fr] float_fields(2) [OF ex fr]
    using float_fields(3) [OF ex fr] ne mant by simp
  have "int (e + 127) - 150 = - int (23 - e)" using e23 by simp
  then have p: "pow2 (int (e + 127) - 150) = 1 / 2 ^ (23 - e)"
    by (simp only: pow2_neg)
  have "valof (decode32 (float_of_nat n)) =
        real (n * 2 ^ (23 - e)) * pow2 (int (e + 127) - 150)"
    by (simp only: dec valof.simps if_False)
  also have "\<dots> = (real n * 2 ^ (23 - e)) * (1 / 2 ^ (23 - e))"
    by (simp only: p of_nat_mult of_nat_power of_nat_numeral)
  also have "\<dots> = real n"
    by simp
  finally have "valof (decode32 (float_of_nat n)) = real n" .
  moreover have "is_finite (decode32 (float_of_nat n))"
    by (simp only: dec is_finite.simps)
  ultimately show ?thesis by simp
qed

lemma decode32_float_of_int:
  assumes "0 < k" and "k \<le> 1000"
  shows "is_finite (decode32 (float_of_int k))
       \<and> valof (decode32 (float_of_int k)) = real_of_int k"
proof -
  have "0 < nat k" and "nat k < 2 ^ 24" using assms by simp_all
  then have "is_finite (decode32 (float_of_nat (nat k)))
      \<and> valof (decode32 (float_of_nat (nat k))) = real (nat k)"
    by (rule decode32_float_of_nat)
  then show ?thesis using assms by (simp add: float_of_int_def)
qed

lemma ilog2_numeral:
  "ilog2 (numeral n) = (if (numeral n :: nat) < 2 then 0 else Suc (ilog2 (numeral n div 2)))"
  "ilog2 0 = 0" "ilog2 1 = 0" "ilog2 (Suc 0) = 0" "ilog2 (Suc (Suc 0)) = Suc 0"
  by (subst ilog2.simps, simp add: ilog2.simps [of "Suc 0"])+

text \<open>The definitions that evaluate a floating-point computation on numerals.\<close>

lemmas fp_eval = binary32_def binary64_def double_to_float_def long_to_double_def fp_int_def
  lit_0_034_def measureDistanceCM_def calculateWaterLevel_def Let_def ilog2_numeral pow2_def

text \<open>
  Values of the two functions: a distance that is not the exact product, and the NaN of a
  zero height.
\<close>

lemma measureDistanceCM_1177:
  "measureDistanceCM 1177 = FNum False 10490479 (- 19)
   \<and> valof (measureDistanceCM 1177) = 10490479 / 524288
   \<and> decode32 0x41A0126F = FNum False 10490479 (- 19)"
  by (simp add: fp_eval decode32_def)

lemma calculateWaterLevel_zero_height:
  "calculateWaterLevel (fp_int 20) (fp_int 0) = FNaN"
  by (simp add: fp_eval)

lemma float_of_int_50: "float_of_int 50 = 0x42480000"
  by (simp add: float_of_int_def float_of_nat_def ilog2_numeral)

section \<open>Minutes and seconds round trip\<close>

text \<open>
  Claim C10. For minutes and seconds in \<open>[0, 59]\<close>, converting the pair to milliseconds with
  \<^verbatim>\<open>minSecToMs\<close> and back with \<^verbatim>\<open>msToMinSec\<close> returns the pair.
\<close>

theorem msToMinSec_minSecToMs:
  assumes m: "m \<le> 59" and s: "s \<le> 59"
  shows "msToMinSec (minSecToMs m s) = (m, s)"
proof -
  have us: "unat s \<le> 59" using s by (simp add: word_le_nat_alt)
  let ?ms = "minSecToMs m s"
  have v: "unat ?ms = unat m * 60000 + unat s * 1000"
    by (simp add: unat_minSecToMs algebra_simps)
  have d: "unat (?ms div 60000) = unat m"
    using us by (simp add: unat_div v)
  have r: "unat ((?ms mod 60000) div 1000) = unat s"
    using us by (simp add: unat_div unat_mod v)
  have "ucast (?ms div 60000) = m"
    by (rule ucast_32_8_eqI) (rule d)
  moreover have "ucast ((?ms mod 60000) div 1000) = s"
    by (rule ucast_32_8_eqI) (rule r)
  ultimately show ?thesis by (simp add: msToMinSec_def)
qed

theorem msToMinSec_minSecToMs_witness:
  "(59::uint8_t) \<le> 59 \<and> (7::uint8_t) \<le> 59 \<and> msToMinSec (minSecToMs 59 7) = (59, 7)"
  using msToMinSec_minSecToMs [of 59 7] by simp

section \<open>Save, load and clear\<close>

lemma saveConfig_result:
  "saveConfig commit_ok cfg flash = (commit_ok, if commit_ok then stored_image cfg flash else flash)"
  by (auto simp: saveConfig_def Let_def EEPROM_commit_def fold_write_bytes fold_write_bytes0
      stored_image_def)

lemma loadConfig_saved:
  assumes c: "Config_sized c" and cfg: "Config_sized cfg"
  shows "loadConfig (stored_image c flash) cfg = (True, c)"
proof -
  let ?f = "stored_image c flash"
  have lens: "length (parentMac c) = 6" "length (ssidPrefix c) = 16" "length (wifiPassword c) = 32"
    "length (parentMac cfg) = 6" "length (ssidPrefix cfg) = 16" "length (wifiPassword cfg) = 32"
    using c cfg by (simp_all add: Config_sized_def)
  have marker: "?f 63 = 0xAA"
    by (simp add: stored_image_def)
  have mac: "fold (\<lambda>i m. m[i := ?f i]) [0..<6] (parentMac cfg) = parentMac c"
    by (rule fold_list_update_all) (simp_all add: lens stored_image_def)
  have ssid: "fold (\<lambda>i p. p[i := byte_to_char (?f (15 + i))]) [0..<16] (ssidPrefix cfg) = ssidPrefix c"
    by (rule fold_list_update_all) (simp_all add: lens stored_image_def byte_to_char_to_byte)
  have pw: "fold (\<lambda>i p. p[i := byte_to_char (?f (31 + i))]) [0..<32] (wifiPassword cfg) = wifiPassword c"
    by (rule fold_list_update_all) (simp_all add: lens stored_image_def byte_to_char_to_byte)
  have rate: "fold (\<lambda>i u. u OR push_bit (i * 8) (ucast (?f (6 + i)))) [0..<4] 0 = refreshRateMs c"
  proof -
    have "fold (\<lambda>i u. u OR push_bit (i * 8) (ucast (?f (6 + i)))) [0..<4] (0 :: uint32_t) =
          fold (\<lambda>i u. u OR push_bit (i * 8)
                  (ucast (ucast (drop_bit (i * 8) (refreshRateMs c) AND 0xFF) :: uint8_t))) [0..<4] 0"
      by (rule fold_cong) (simp_all add: stored_image_def)
    then show ?thesis by (simp only: le_bytes_32)
  qed
  have barrel: "fold (\<lambda>i u. u OR push_bit (i * 8) (ucast (?f (10 + i)))) [0..<4] 0 = barrelHeightCm c"
  proof -
    have "fold (\<lambda>i u. u OR push_bit (i * 8) (ucast (?f (10 + i)))) [0..<4] (0 :: uint32_t) =
          fold (\<lambda>i u. u OR push_bit (i * 8)
                  (ucast (ucast (drop_bit (i * 8) (barrelHeightCm c) AND 0xFF) :: uint8_t))) [0..<4] 0"
      by (rule fold_cong) (simp_all add: stored_image_def)
    then show ?thesis by (simp only: le_bytes_32)
  qed
  have led: "(?f 14 = 0x01) = ledEnabled c"
    by (simp add: stored_image_def)
  show ?thesis
    unfolding loadConfig_def Let_def
    by (simp add: marker mac ssid pw rate barrel led)
qed

lemma Config_sized_default: "Config_sized default_config"
  by (simp add: Config_sized_def default_config_def)

lemma Config_sized_peer: "Config_sized config_peer"
  by (simp add: Config_sized_def default_config_def config_peer_def)

lemma clearConfig_at:
  "clearConfig True flash a = (if a < EEPROM_SIZE then 0xFF else flash a)"
  by (simp add: clearConfig_def Let_def EEPROM_commit_def fold_write_bytes0)

text \<open>
  Claim C2. For every configuration record \<open>c\<close> (with arrays of the sizes the C type fixes),
  when \<^verbatim>\<open>saveConfig\<close> reports that its commit succeeded, \<^verbatim>\<open>loadConfig\<close> on the resulting store
  returns \<open>true\<close> and a record equal to \<open>c\<close> in all six fields, whatever record it was given
  to fill.
\<close>

theorem saveConfig_loadConfig_roundtrip:
  assumes "Config_sized c" and "Config_sized cfg"
    and "saveConfig commit_ok c flash = (True, flash')"
  shows "loadConfig flash' cfg = (True, c)
       \<and> parentMac (snd (loadConfig flash' cfg)) = parentMac c
       \<and> refreshRateMs (snd (loadConfig flash' cfg)) = refreshRateMs c
       \<and> barrelHeightCm (snd (loadConfig flash' cfg)) = barrelHeightCm c
       \<and> ledEnabled (snd (loadConfig flash' cfg)) = ledEnabled c
       \<and> ssidPrefix (snd (loadConfig flash' cfg)) = ssidPrefix c
       \<and> wifiPassword (snd (loadConfig flash' cfg)) = wifiPassword c"
proof -
  from assms(3) have "commit_ok" and "flash' = stored_image c flash"
    by (simp_all add: saveConfig_result split: if_splits)
  then have "loadConfig flash' cfg = (True, c)"
    using loadConfig_saved [OF assms(1,2)] by simp
  then show ?thesis by simp
qed

theorem saveConfig_loadConfig_roundtrip_witness:
  "Config_sized config_peer \<and> Config_sized default_config
   \<and> saveConfig True config_peer flash_blank = (True, flash_peer)
   \<and> loadConfig flash_peer default_config = (True, config_peer)"
proof -
  have s: "saveConfig True config_peer flash_blank = (True, flash_peer)"
    unfolding flash_peer_def by (simp add: saveConfig_result)
  show ?thesis
    using saveConfig_loadConfig_roundtrip [OF Config_sized_peer Config_sized_default s]
      Config_sized_peer Config_sized_default s by simp
qed

text \<open>
  When the commit inside \<^verbatim>\<open>clearConfig\<close> takes effect, \<^verbatim>\<open>loadConfig\<close> afterwards returns
  \<open>false\<close> and leaves the record it was given untouched, for every prior store content:
  all 64 bytes, the marker at address 63 among them, are \<open>0xFF\<close>, which is not the marker
  \<open>0xAA\<close>.
\<close>

theorem clearConfig_then_loadConfig:
  assumes "commit_ok"
  shows "loadConfig (clearConfig commit_ok flash) cfg = (False, cfg)
       \<and> (\<forall>a < EEPROM_SIZE. clearConfig commit_ok flash a = 0xFF)"
  using assms by (simp add: loadConfig_def clearConfig_at EEPROM_SIZE_def)

theorem clearConfig_then_loadConfig_witness:
  "loadConfig (clearConfig True flash_peer) config_peer = (False, config_peer)
   \<and> fst (loadConfig flash_peer default_config)"
  using clearConfig_then_loadConfig [of True flash_peer config_peer]
    loadConfig_saved [OF Config_sized_peer Config_sized_default, of flash_blank]
  by (simp add: flash_peer_def saveConfig_result)


section \<open>The fill percentage\<close>






lemma valof_fp_int: "valof (fp_int k) = real_of_int k"
  by (simp add: fp_int_def pow2_def)





text \<open>
  Claim C5. For every container height \<open>h\<close>, \<^verbatim>\<open>calculateWaterLevel\<close> returns 0 when the
  distance is the value \<^verbatim>\<open>measureDistanceCM\<close> returns on a timeout (\<open>-1\<close>, from an echo
  duration of 0) and when the distance is below 20 cm.
\<close>

theorem calculateWaterLevel_invalid_or_near:
  "calculateWaterLevel (measureDistanceCM 0) h = fp_int 0
   \<and> valof (fp_int 0) = 0
   \<and> is_finite (measureDistanceCM 0)
   \<and> valof (measureDistanceCM 0) = - 1
   \<and> fp_lt (measureDistanceCM 0) (fp_int 0)
   \<and> (fp_lt d (fp_int 20) \<longrightarrow> calculateWaterLevel d h = fp_int 0)"
  by (simp add: calculateWaterLevel_def measureDistanceCM_def fp_int_def pow2_def)

theorem calculateWaterLevel_invalid_or_near_witness:
  "fp_lt (decode32 0x419C0000) (fp_int 20) \<and> valof (decode32 0x419C0000) = 19.5
   \<and> calculateWaterLevel (decode32 0x419C0000) (fp_int 50) = fp_int 0
   \<and> calculateWaterLevel (measureDistanceCM 0) (fp_int 50) = fp_int 0"
proof -
  have d: "decode32 0x419C0000 = FNum False 10223616 (- 19)"
    by (simp add: decode32_def)
  have l: "fp_lt (decode32 0x419C0000) (fp_int 20)"
    unfolding d by (simp add: fp_int_def pow2_def)
  have v: "valof (decode32 0x419C0000) = 19.5"
    unfolding d by (simp add: pow2_def)
  show ?thesis
    using calculateWaterLevel_invalid_or_near [of "fp_int 50" "decode32 0x419C0000"] l v
    by simp
qed

section \<open>The save request: validation and the interval\<close>

lemma sscanf_mac_numeral:
  "sscanf_mac (numeral n) s =
     (case scan_hhx s of
        None \<Rightarrow> []
      | Some (v, rest) \<Rightarrow>
          v # (if pred_numeral n = 0 then []
               else case rest of
                      [] \<Rightarrow> []
                    | c # cs \<Rightarrow> if c = CHR '':'' then sscanf_mac (pred_numeral n) cs else []))"
  by (simp add: numeral_eq_Suc)

lemmas scan_defs = parseMac_def c_str_def scan_hhx_def scan_sign_def skip_0x_def hex_digit_def
  isspace_def toInt_def atol_def server_hasArg_def server_arg_def sscanf_mac_numeral

lemma handleSave_store_result:
  "handleSave_store commit_ok cfg flash =
     (if commit_ok then (Response 200 ''Settings saved. Rebooting...'', True, cfg, stored_image cfg flash)
      else (Response 500 ''Failed to save settings'', False, cfg, flash))"
  by (simp add: handleSave_store_def saveConfig_result)

lemma handleSave_rejected_keeps_store:
  assumes "handleSave commit_ok req cfg flash = (resp, restarted, cfg', flash')"
    and "status resp \<noteq> 200"
  shows "flash' = flash \<and> \<not> restarted"
  using assms
  by (auto simp: handleSave_def handleSave_store_result Let_def split: if_splits prod.splits)

text \<open>
  A request that is answered with 200 carries a barrel height between 1 and 1000, and the
  stored pattern stands for that number.
\<close>

lemma handleSave_accepted_barrel:
  assumes "handleSave commit_ok req cfg flash = (resp, restarted, cfg', flash')"
    and "status resp = 200"
  shows "0 < toInt (server_arg req ''barrel'') \<and> toInt (server_arg req ''barrel'') \<le> 1000
       \<and> is_finite (decode32 (barrelHeightCm cfg'))
       \<and> valof (decode32 (barrelHeightCm cfg')) = real_of_int (toInt (server_arg req ''barrel''))"
proof -
  have "0 < toInt (server_arg req ''barrel'') \<and> toInt (server_arg req ''barrel'') \<le> 1000
        \<and> barrelHeightCm cfg' = float_of_int (toInt (server_arg req ''barrel''))"
    using assms
    by (auto simp: handleSave_def handleSave_store_result Let_def split: if_splits prod.splits)
  then show ?thesis
    using decode32_float_of_int [of "toInt (server_arg req ''barrel'')"] by simp
qed

text \<open>
  Claim C1 says that a save request that fails validation leaves every field of the
  configuration as it was. \<^verbatim>\<open>handleSave\<close> writes into the global \<^verbatim>\<open>config\<close> while it
  validates, so a request rejected for its barrel height has already replaced the
  peer address and the refresh rate, and a request rejected for its address has replaced the
  bytes that \<^verbatim>\<open>sscanf\<close> converted before it failed. The store is untouched in both cases
  (\<open>handleSave_rejected_keeps_store\<close>). The code at these two requests:
\<close>

theorem handleSave_rejected_changes_config:
  "handleSave commit_ok req_bad_barrel default_config flash =
     (Response 400 ''Invalid barrel height'', False,
      default_config\<lparr>parentMac := [0xAA, 0xBB, 0xCC, 0xDD, 0xEE, 0x01], refreshRateMs := 90000\<rparr>,
      flash)
   \<and> handleSave commit_ok req_bad_mac default_config flash =
     (Response 400 ''Bad MAC format'', False,
      default_config\<lparr>parentMac := [0x12, 0x34, 0xFF, 0xFF, 0xFF, 0xFF]\<rparr>, flash)
   \<and> default_config\<lparr>parentMac := [0xAA, 0xBB, 0xCC, 0xDD, 0xEE, 0x01], refreshRateMs := 90000\<rparr>
       \<noteq> default_config
   \<and> default_config\<lparr>parentMac := [0x12, 0x34, 0xFF, 0xFF, 0xFF, 0xFF]\<rparr> \<noteq> default_config"
  by (simp add: handleSave_def req_bad_barrel_def req_bad_mac_def scan_defs minSecToMs_def
      default_config_def)

theorem handleSave_rejected_changes_config_witness:
  "status (fst (handleSave True req_bad_barrel default_config flash_blank)) = 400
   \<and> fst (snd (snd (handleSave True req_bad_barrel default_config flash_blank))) \<noteq> default_config
   \<and> refreshRateMs (fst (snd (snd (handleSave True req_bad_barrel default_config flash_blank))))
       = 90000
   \<and> refreshRateMs default_config = 5000
   \<and> parentMac (fst (snd (snd (handleSave True req_bad_mac default_config flash_blank))))
       = [0x12, 0x34, 0xFF, 0xFF, 0xFF, 0xFF]
   \<and> parentMac default_config = [0xFF, 0xFF, 0xFF, 0xFF, 0xFF, 0xFF]
   \<and> snd (snd (snd (handleSave True req_bad_barrel default_config flash_blank))) = flash_blank"
  using handleSave_rejected_changes_config [of True flash_blank]
  by (simp add: default_config_def)

lemma minSecToMs_zero_iff: "minSecToMs m s = 0 \<longleftrightarrow> m = 0 \<and> s = 0"
proof -
  have "minSecToMs m s = 0 \<longleftrightarrow> unat (minSecToMs m s) = 0"
    by (simp add: unat_eq_0)
  also have "\<dots> \<longleftrightarrow> unat m = 0 \<and> unat s = 0"
    by (simp add: unat_minSecToMs)
  also have "\<dots> \<longleftrightarrow> m = 0 \<and> s = 0"
    by (simp add: unat_eq_0)
  finally show ?thesis .
qed

text \<open>
  Claim C8, as stated, fails: a save request with zero minutes and zero seconds passes
  every check of \<^verbatim>\<open>handleSave\<close>, is answered with 200, and stores a record whose
  \<^verbatim>\<open>refreshRateMs\<close> is 0, which \<^verbatim>\<open>loadConfig\<close> returns after the restart.
\<close>

theorem handleSave_accepts_zero_interval:
  "handleSave True req_zero_interval default_config flash_blank =
     (Response 200 ''Settings saved. Rebooting...'', True,
      config_peer\<lparr>refreshRateMs := 0, ledEnabled := False\<rparr>,
      stored_image (config_peer\<lparr>refreshRateMs := 0, ledEnabled := False\<rparr>) flash_blank)
   \<and> \<not> 0 < refreshRateMs (config_peer\<lparr>refreshRateMs := 0, ledEnabled := False\<rparr>)
   \<and> loadConfig (stored_image (config_peer\<lparr>refreshRateMs := 0, ledEnabled := False\<rparr>) flash_blank)
        default_config = (True, config_peer\<lparr>refreshRateMs := 0, ledEnabled := False\<rparr>)"
proof -
  have s: "Config_sized (config_peer\<lparr>refreshRateMs := 0, ledEnabled := False\<rparr>)"
    using Config_sized_peer by (simp add: Config_sized_def)
  have "handleSave True req_zero_interval default_config flash_blank =
     (Response 200 ''Settings saved. Rebooting...'', True,
      config_peer\<lparr>refreshRateMs := 0, ledEnabled := False\<rparr>,
      stored_image (config_peer\<lparr>refreshRateMs := 0, ledEnabled := False\<rparr>) flash_blank)"
    by (simp add: handleSave_def req_zero_interval_def scan_defs minSecToMs_def
      default_config_def config_peer_def handleSave_store_result float_of_int_50 Let_def)
  then show ?thesis
    using loadConfig_saved [OF s Config_sized_default, of flash_blank] by simp
qed

text \<open>
  Claim C8, amended. The default record has \<^verbatim>\<open>refreshRateMs\<close> = 5000. A save request that
  \<^verbatim>\<open>handleSave\<close> answers with 200 sets \<^verbatim>\<open>refreshRateMs\<close> to \<open>(60 * m + s) * 1000\<close>, where \<open>m\<close> and
  \<open>s\<close> are the submitted minutes and seconds as 8-bit values, both at most 59: the interval is
  at most 3599000 ms, and it is 0 exactly when \<open>m\<close> and \<open>s\<close> are both 0.
\<close>

theorem handleSave_refresh_rate:
  assumes "handleSave commit_ok req cfg flash = (resp, restarted, cfg', flash')"
    and "status resp = 200"
    and "m = (word_of_int (toInt (server_arg req ''minutes'')) :: uint8_t)"
    and "s = (word_of_int (toInt (server_arg req ''seconds'')) :: uint8_t)"
  shows "refreshRateMs default_config = 5000
       \<and> m \<le> 59 \<and> s \<le> 59
       \<and> refreshRateMs cfg' = minSecToMs m s
       \<and> unat (refreshRateMs cfg') = (unat m * 60 + unat s) * 1000
       \<and> unat (refreshRateMs cfg') \<le> 3599000
       \<and> (refreshRateMs cfg' = 0 \<longleftrightarrow> m = 0 \<and> s = 0)"
proof -
  have ms: "m \<le> 59 \<and> s \<le> 59 \<and> refreshRateMs cfg' = minSecToMs m s"
    using assms
    by (auto simp: handleSave_def handleSave_store_result Let_def split: if_splits prod.splits)
  then have "unat m \<le> 59" and "unat s \<le> 59"
    by (simp_all add: word_le_nat_alt)
  then have "(unat m * 60 + unat s) * 1000 \<le> 3599000"
    by simp
  then show ?thesis
    using ms by (simp add: unat_minSecToMs minSecToMs_zero_iff default_config_def)
qed

theorem handleSave_refresh_rate_witness:
  "handleSave True req_valid default_config flash_blank =
     (Response 200 ''Settings saved. Rebooting...'', True, config_peer\<lparr>refreshRateMs := 90000\<rparr>,
      stored_image (config_peer\<lparr>refreshRateMs := 90000\<rparr>) flash_blank)
   \<and> status (Response 200 ''Settings saved. Rebooting...'') = 200
   \<and> (word_of_int (toInt (server_arg req_valid ''minutes'')) :: uint8_t) = 1
   \<and> (word_of_int (toInt (server_arg req_valid ''seconds'')) :: uint8_t) = 30
   \<and> refreshRateMs (config_peer\<lparr>refreshRateMs := 90000\<rparr>) = minSecToMs 1 30
   \<and> unat (refreshRateMs (config_peer\<lparr>refreshRateMs := 90000\<rparr>)) \<le> 3599000"
proof -
  have h: "handleSave True req_valid default_config flash_blank =
     (Response 200 ''Settings saved. Rebooting...'', True, config_peer\<lparr>refreshRateMs := 90000\<rparr>,
      stored_image (config_peer\<lparr>refreshRateMs := 90000\<rparr>) flash_blank)"
    by (simp add: handleSave_def req_valid_def scan_defs minSecToMs_def
      default_config_def config_peer_def handleSave_store_result float_of_int_50 Let_def)
  have m: "(1 :: uint8_t) = word_of_int (toInt (server_arg req_valid ''minutes''))"
    and s: "(30 :: uint8_t) = word_of_int (toInt (server_arg req_valid ''seconds''))"
    by (simp_all add: req_valid_def scan_defs)
  have st: "status (Response 200 ''Settings saved. Rebooting...'') = 200" by simp
  show ?thesis
    using handleSave_refresh_rate [OF h st m s] h m s by simp
qed

section \<open>Sampling and transmission\<close>

lemma boot_peer_eq:
  "boot_peer =
     globals_init\<lparr>config := config_peer, espNowInitialized := True,
       currentDistance := measureDistanceCM 1500,
       currentWaterLevel :=
         calculateWaterLevel (measureDistanceCM 1500) (decode32 (barrelHeightCm config_peer)),
       lastSensorRead := 300\<rparr>"
proof -
  have l: "loadConfig flash_peer default_config = (True, config_peer)"
    unfolding flash_peer_def
    using loadConfig_saved [OF Config_sized_peer Config_sized_default, of flash_blank]
    by (simp add: saveConfig_result)
  have m: "parentMac config_peer = [0xAA, 0xBB, 0xCC, 0xDD, 0xEE, 0x01]"
    by (simp add: config_peer_def)
  show ?thesis
    by (simp add: boot_peer_def setup_globals_def globals_init_def l Let_def initEspNow_def m)
qed


text \<open>
  Claim C9. A manual sample (\<^verbatim>\<open>handleReadSensor\<close>) has the effects of a scheduled one
  (\<^verbatim>\<open>updateSensorReadings\<close>) whose interval check passes: it measures, recomputes the fill
  percentage, overwrites the current reading, sets \<^verbatim>\<open>lastSensorRead\<close> to the time read, and
  sends to the peer when ESP-NOW is initialised. With the same inputs and the same time the
  two return the same state; when the interval check fails the scheduled sample does nothing.
  (The scheduled sample reads the time before the measurement, the manual one after it.)
\<close>

theorem forced_sample_same_effects:
  "(refreshRateMs (config st) \<le> now - lastSensorRead st \<longrightarrow>
      updateSensorReadings now duration result sendTime st =
      handleReadSensor duration now result sendTime st)
   \<and> (\<not> refreshRateMs (config st) \<le> now - lastSensorRead st \<longrightarrow>
      updateSensorReadings now duration result sendTime st = st)
   \<and> currentDistance (handleReadSensor duration now result sendTime st) = measureDistanceCM duration
   \<and> currentWaterLevel (handleReadSensor duration now result sendTime st) =
       calculateWaterLevel (measureDistanceCM duration) (decode32 (barrelHeightCm (config st)))
   \<and> lastSensorRead (handleReadSensor duration now result sendTime st) = now
   \<and> sent (handleReadSensor duration now result sendTime st) =
       (if espNowInitialized st
        then sent st @
          [(parentMac (config st),
            \<lparr>distance = measureDistanceCM duration,
             waterLevel = calculateWaterLevel (measureDistanceCM duration)
                            (decode32 (barrelHeightCm (config st))),
             barrelHeight = barrelHeightCm (config st)\<rparr>)]
        else sent st)"
  by (simp add: updateSensorReadings_def handleReadSensor_def sendEspNowData_def Let_def)

theorem forced_sample_same_effects_witness:
  "refreshRateMs (config boot_peer) \<le> 5300 - lastSensorRead boot_peer
   \<and> updateSensorReadings 5300 1500 1 5301 boot_peer = handleReadSensor 1500 5300 1 5301 boot_peer
   \<and> \<not> refreshRateMs (config boot_peer) \<le> 5299 - lastSensorRead boot_peer
   \<and> updateSensorReadings 5299 1500 1 5301 boot_peer = boot_peer
   \<and> lastSensorRead (handleReadSensor 1500 5299 1 5301 boot_peer) = 5299
   \<and> length (sent (handleReadSensor 1500 5299 1 5301 boot_peer)) = 1"
proof -
  have r: "refreshRateMs (config boot_peer) = 5000" and l: "lastSensorRead boot_peer = 300"
    and i: "espNowInitialized boot_peer" and n: "sent boot_peer = []"
    by (simp_all add: boot_peer_eq globals_init_def config_peer_def default_config_def)
  show ?thesis
    using forced_sample_same_effects [of boot_peer 5300 1500 1 5301]
      forced_sample_same_effects [of boot_peer 5299 1500 1 5301]
    by (simp add: r l i n)
qed








section \<open>The long press\<close>

lemma checkButton_press:
  "checkButton ok True ts (button_boot, flash) = ((\<lparr>t0 = ts, pressed = True\<rparr>, flash), False)"
  by (simp add: checkButton_def button_boot_def)

lemma checkButton_timing:
  assumes "ts \<noteq> 0"
  shows "checkButton ok True now (\<lparr>t0 = ts, pressed = True\<rparr>, flash) =
           (if BTN_HOLD_MS \<le> now - ts
            then ((\<lparr>t0 = ts, pressed = True\<rparr>, clearConfig ok flash), True)
            else ((\<lparr>t0 = ts, pressed = True\<rparr>, flash), False))"
  using assms by (simp add: checkButton_def)

lemma checkButton_release:
  assumes "ts \<noteq> 0"
  shows "checkButton ok False now (\<lparr>t0 = ts, pressed = True\<rparr>, flash) = ((button_boot, flash), False)"
  using assms by (simp add: checkButton_def button_boot_def word_greater_zero_iff)

lemma checkButton_not_pressed_never_fires:
  "snd (checkButton ok False now s) = False"
  by (cases s) (simp add: checkButton_def)

lemma run_button_held:
  assumes "ts \<noteq> 0" and "\<forall>t \<in> set mids. t - ts < BTN_HOLD_MS"
  shows "run_button ok (map (Pair True) mids @ rest) (\<lparr>t0 = ts, pressed = True\<rparr>, flash) =
         run_button ok rest (\<lparr>t0 = ts, pressed = True\<rparr>, flash)"
  using assms(2)
proof (induction mids)
  case Nil
  show ?case by simp
next
  case (Cons t mids)
  have "\<not> BTN_HOLD_MS \<le> t - ts" using Cons.prems by (simp add: not_le)
  then show ?case
    using Cons by (simp add: checkButton_timing [OF assms(1)])
qed

text \<open>
  The detector at every other start time. When the time \<open>ts\<close> read at the first pass that
  sees the button pressed is not 0, keeping it pressed fires no factory reset while
  \<open>t - ts < 4000\<close> and fires exactly one, clearing the store and restarting, at the pass where
  \<open>t - ts = 4000\<close>. A release before that fires nothing and puts the detector back in its
  boot state, so that the passes after it run as from boot and a new press is timed on its
  own.
\<close>

theorem hold_detector:
  assumes "ts \<noteq> 0" and "\<forall>t \<in> set mids. t - ts < BTN_HOLD_MS"
  shows "run_button ok ((True, ts) # map (Pair True) mids @ [(True, ts + BTN_HOLD_MS)])
           (button_boot, flash) = (1, button_boot, clearConfig ok flash)
       \<and> run_button ok ((True, ts) # map (Pair True) mids) (button_boot, flash) =
           (0, \<lparr>t0 = ts, pressed = True\<rparr>, flash)
       \<and> run_button ok ((True, ts) # map (Pair True) mids @ (False, tr) # rest)
           (button_boot, flash) = run_button ok rest (button_boot, flash)"
proof -
  have a: "run_button ok ((True, ts) # map (Pair True) mids @ [(True, ts + BTN_HOLD_MS)])
           (button_boot, flash) = (1, button_boot, clearConfig ok flash)"
    using run_button_held [OF assms, of ok "[(True, ts + BTN_HOLD_MS)]" flash]
    by (simp add: checkButton_press checkButton_timing [OF assms(1)])
  have b: "run_button ok ((True, ts) # map (Pair True) mids) (button_boot, flash) =
           (0, \<lparr>t0 = ts, pressed = True\<rparr>, flash)"
    using run_button_held [OF assms, of ok "[]" flash]
    by (simp add: checkButton_press)
  have c: "run_button ok ((True, ts) # map (Pair True) mids @ (False, tr) # rest)
           (button_boot, flash) = run_button ok rest (button_boot, flash)"
    using run_button_held [OF assms, of ok "(False, tr) # rest" flash]
    by (simp add: checkButton_press checkButton_release [OF assms(1)])
  from a b c show ?thesis by simp
qed

theorem hold_detector_witness:
  "(1000 :: uint32_t) \<noteq> 0
   \<and> (1001 :: uint32_t) - 1000 < BTN_HOLD_MS \<and> (3000 :: uint32_t) - 1000 < BTN_HOLD_MS
   \<and> (4999 :: uint32_t) - 1000 < BTN_HOLD_MS
   \<and> run_button True [(True, 1000), (True, 1001), (True, 3000), (True, 4999), (True, 5000)]
        (button_boot, flash_peer) = (1, button_boot, clearConfig True flash_peer)
   \<and> run_button True [(True, 1000), (True, 1001), (True, 3000), (True, 4999), (False, 4999),
        (True, 6000), (True, 10000)] (button_boot, flash_peer)
      = (1, button_boot, clearConfig True flash_peer)"
proof -
  have h: "\<forall>t \<in> set [1001, 3000, 4999 :: uint32_t]. t - 1000 < BTN_HOLD_MS"
    by (simp add: BTN_HOLD_MS_def)
  have z: "(1000 :: uint32_t) \<noteq> 0" by simp
  have h2: "\<forall>t \<in> set ([] :: uint32_t list). t - 6000 < BTN_HOLD_MS" by simp
  have z2: "(6000 :: uint32_t) \<noteq> 0" by simp
  show ?thesis
    using hold_detector [OF z h, of True flash_peer 4999 "[(True, 6000), (True, 10000)]"]
      hold_detector [OF z2 h2, of True flash_peer]
      h
    by (simp add: BTN_HOLD_MS_def)
qed

text \<open>
  Claim C7 says that holding the button for exactly 4000 ms fires the factory reset, and the
  header of \<^verbatim>\<open>main.cpp\<close> that holding it for 4 seconds or more clears the configuration.
  \<^verbatim>\<open>checkButton\<close> tests \<^verbatim>\<open>!t0\<close> to decide whether a press is being timed, so a press first seen
  when \<^verbatim>\<open>millis()\<close> reads 0 (the counter wraps to 0 every \<open>2 ^ 32\<close> ms) is timed from the next
  pass only. The code at that input: the passes at 0, 2000 and 4000 ms read the button
  pressed, the pass at 4001 ms reads it released, and no factory reset has fired; the store
  still holds its record.
\<close>

theorem hold_from_time_zero_does_not_fire:
  "run_button True [(True, 0), (True, 2000), (True, 0 + BTN_HOLD_MS), (False, 4001)]
     (button_boot, flash_peer) = (0, button_boot, flash_peer)
   \<and> fst (run_button True [(True, 0), (True, 0 + BTN_HOLD_MS)] (button_boot, flash_peer)) = 0
   \<and> fst (loadConfig flash_peer default_config)"
proof -
  have "loadConfig flash_peer default_config = (True, config_peer)"
    unfolding flash_peer_def
    using loadConfig_saved [OF Config_sized_peer Config_sized_default, of flash_blank]
    by (simp add: saveConfig_result)
  then show ?thesis
    by (simp add: checkButton_def button_boot_def BTN_HOLD_MS_def word_greater_zero_iff)
qed

end
